theory Spec2Isabelle
  imports Complex_Main "HOL-Library.Sublist"
begin

section \<open>Text primitives of the interpreter\<close>

text \<open>
  The program is Python. Its strings are modelled as HOL strings read as ASCII text, its
  integers as \<open>int\<close> (unbounded, as in Python). The builtins the program calls
  (\<open>str.strip\<close>, \<open>str.lower\<close>, \<open>str.upper\<close>, \<open>int\<close>, \<open>float\<close>, \<open>str\<close>,
  the \<open>in\<close> operator on strings) are written out below for ASCII input. The interpreter's
  configurable limit on the number of digits of an integer literal is not modelled.
\<close>

definition is_space :: "char \<Rightarrow> bool" where
  \<comment> \<open>\<open>str.isspace\<close> on ASCII: TAB, LF, VT, FF, CR, FS, GS, RS, US, SPACE.\<close>
  "is_space c = ((9 \<le> (of_char c :: nat) \<and> (of_char c :: nat) \<le> 13)
                \<or> (28 \<le> (of_char c :: nat) \<and> (of_char c :: nat) \<le> 32))"

definition is_digit :: "char \<Rightarrow> bool" where
  "is_digit c = (48 \<le> (of_char c :: nat) \<and> (of_char c :: nat) \<le> 57)"

definition digit_val :: "char \<Rightarrow> int" where
  "digit_val c = int (of_char c) - 48"

definition digit_char :: "nat \<Rightarrow> char" where
  "digit_char n = char_of (48 + n)"

definition strip :: "string \<Rightarrow> string" where
  \<comment> \<open>\<open>s.strip()\<close>: leading and trailing whitespace removed.\<close>
  "strip s = rev (dropWhile is_space (rev (dropWhile is_space s)))"

definition lower_char :: "char \<Rightarrow> char" where
  "lower_char c = (if 65 \<le> (of_char c :: nat) \<and> (of_char c :: nat) \<le> 90
                   then char_of ((of_char c :: nat) + 32) else c)"

definition upper_char :: "char \<Rightarrow> char" where
  "upper_char c = (if 97 \<le> (of_char c :: nat) \<and> (of_char c :: nat) \<le> 122
                   then char_of ((of_char c :: nat) - 32) else c)"

definition lower :: "string \<Rightarrow> string" where
  "lower s = map lower_char s"

definition upper :: "string \<Rightarrow> string" where
  "upper s = map upper_char s"

fun py_in :: "string \<Rightarrow> string \<Rightarrow> bool" where
  \<comment> \<open>\<open>q in s\<close> on strings: \<open>q\<close> occurs in \<open>s\<close> as a contiguous substring.\<close>
  "py_in q [] = (q = [])"
| "py_in q (c # cs) = (prefix q (c # cs) \<or> py_in q cs)"

subsection \<open>Integer literals: \<open>int(s)\<close> and \<open>str(n)\<close>\<close>

text \<open>
  \<open>int(s)\<close> accepts, between optional whitespace, an optional sign followed by decimal
  digits in which single underscores may separate digits. \<open>digitpart\<close> returns the
  digits with the underscores removed.
\<close>

fun digitpart_rest :: "string \<Rightarrow> string option" where
  "digitpart_rest [] = Some []"
| "digitpart_rest (c # cs) =
     (if is_digit c then map_option ((#) c) (digitpart_rest cs)
      else if c = CHR ''_'' then
        (case cs of
           [] \<Rightarrow> None
         | d # ds \<Rightarrow> if is_digit d then map_option ((#) d) (digitpart_rest ds) else None)
      else None)"

definition digitpart :: "string \<Rightarrow> string option" where
  "digitpart s =
     (case s of
        [] \<Rightarrow> None
      | c # cs \<Rightarrow> if is_digit c then map_option ((#) c) (digitpart_rest cs) else None)"

definition digits_value :: "string \<Rightarrow> int" where
  "digits_value ds = foldl (\<lambda>a c. 10 * a + digit_val c) 0 ds"

definition signed_int :: "string \<Rightarrow> int option" where
  "signed_int s =
     (case s of
        [] \<Rightarrow> None
      | c # r \<Rightarrow>
          if c = CHR ''-'' then map_option (\<lambda>ds. - digits_value ds) (digitpart r)
          else if c = CHR ''+'' then map_option digits_value (digitpart r)
          else map_option digits_value (digitpart (c # r)))"

definition py_int_str :: "string \<Rightarrow> int option" where
  \<comment> \<open>\<open>int(s)\<close> for a string; \<open>None\<close> stands for \<open>ValueError\<close>.\<close>
  "py_int_str s = signed_int (strip s)"

fun digits_of :: "nat \<Rightarrow> string" where
  "digits_of n =
     (if n < 10 then [digit_char n] else digits_of (n div 10) @ [digit_char (n mod 10)])"

declare digits_of.simps [simp del]

definition py_str_int :: "int \<Rightarrow> string" where
  \<comment> \<open>\<open>str(n)\<close> for an integer.\<close>
  "py_str_int n = (if n < 0 then CHR ''-'' # digits_of (nat (- n)) else digits_of (nat n))"

subsection \<open>Floating-point values: \<open>float(s)\<close>\<close>

text \<open>
  A float is a finite value, an infinity or NaN. Finite values are kept as exact rationals:
  rounding to the nearest double, overflow to an infinity and the sign of zero are
  abstracted. Comparisons and sums follow IEEE 754 on the special values.
\<close>

datatype pyfloat = Finite rat | PosInf | NegInf | NaN

fun fgt :: "pyfloat \<Rightarrow> pyfloat \<Rightarrow> bool" where
  \<comment> \<open>\<open>a > b\<close>\<close>
  "fgt NaN _ = False"
| "fgt _ NaN = False"
| "fgt (Finite a) (Finite b) = (b < a)"
| "fgt PosInf PosInf = False"
| "fgt PosInf _ = True"
| "fgt _ PosInf = False"
| "fgt NegInf _ = False"
| "fgt _ NegInf = True"

fun fle :: "pyfloat \<Rightarrow> pyfloat \<Rightarrow> bool" where
  \<comment> \<open>\<open>a <= b\<close>\<close>
  "fle NaN _ = False"
| "fle _ NaN = False"
| "fle (Finite a) (Finite b) = (a \<le> b)"
| "fle NegInf _ = True"
| "fle _ PosInf = True"
| "fle PosInf _ = False"
| "fle _ NegInf = False"



definition split_at :: "(char \<Rightarrow> bool) \<Rightarrow> string \<Rightarrow> string \<times> string option" where
  \<comment> \<open>the text before the first character satisfying \<open>P\<close>, and the text after it if any\<close>
  "split_at P s =
     (takeWhile (\<lambda>c. \<not> P c) s,
      case dropWhile (\<lambda>c. \<not> P c) s of [] \<Rightarrow> None | _ # r \<Rightarrow> Some r)"

definition pow10 :: "int \<Rightarrow> rat" where
  "pow10 e = (if 0 \<le> e then 10 ^ nat e else 1 / 10 ^ nat (- e))"

definition mantissa :: "string \<Rightarrow> (string \<times> nat) option" where
  \<comment> \<open>\<open>[digitpart] "." digitpart | digitpart ["."]\<close>: all the digits, and how many follow the point\<close>
  "mantissa m =
     (case split_at (\<lambda>c. c = CHR ''.'') m of
        (ip, None) \<Rightarrow> map_option (\<lambda>ds. (ds, 0)) (digitpart ip)
      | (ip, Some fp) \<Rightarrow>
          if ip = [] then map_option (\<lambda>fs. (fs, length fs)) (digitpart fp)
          else if fp = [] then map_option (\<lambda>ds. (ds, 0)) (digitpart ip)
          else (case (digitpart ip, digitpart fp) of
                  (Some ds, Some fs) \<Rightarrow> Some (ds @ fs, length fs)
                | _ \<Rightarrow> None))"

definition float_number :: "string \<Rightarrow> rat option" where
  \<comment> \<open>\<open>number [("e" | "E") ["+" | "-"] digitpart]\<close>\<close>
  "float_number s =
     (case split_at (\<lambda>c. c = CHR ''e'' \<or> c = CHR ''E'') s of
        (m, ex) \<Rightarrow>
          (case (mantissa m, case ex of None \<Rightarrow> Some 0 | Some x \<Rightarrow> signed_int x) of
             (Some (ds, k), Some e) \<Rightarrow> Some (of_int (digits_value ds) * pow10 (e - int k))
           | _ \<Rightarrow> None))"

definition abs_float :: "bool \<Rightarrow> string \<Rightarrow> pyfloat option" where
  "abs_float neg body =
     (if lower body = ''inf'' \<or> lower body = ''infinity'' then Some (if neg then NegInf else PosInf)
      else if lower body = ''nan'' then Some NaN
      else map_option (\<lambda>q. Finite (if neg then - q else q)) (float_number body))"

definition py_float_str :: "string \<Rightarrow> pyfloat option" where
  \<comment> \<open>\<open>float(s)\<close> for a string; \<open>None\<close> stands for \<open>ValueError\<close>.\<close>
  "py_float_str s =
     (case strip s of
        [] \<Rightarrow> None
      | c # r \<Rightarrow>
          if c = CHR ''-'' then abs_float True r
          else if c = CHR ''+'' then abs_float False r
          else abs_float False (c # r))"

subsection \<open>Conversions on Python values\<close>

datatype py_error = ValueError | TypeError | OverflowError | StopIteration | EOFError

datatype pyval = PyNone | PyStr string | PyInt int | PyFloat pyfloat

fun py_int :: "pyval \<Rightarrow> py_error + int" where
  \<comment> \<open>\<open>int(v)\<close>\<close>
  "py_int PyNone = Inl TypeError"
| "py_int (PyStr s) = (case py_int_str s of None \<Rightarrow> Inl ValueError | Some n \<Rightarrow> Inr n)"
| "py_int (PyInt n) = Inr n"
| "py_int (PyFloat (Finite q)) = Inr (if 0 \<le> q then \<lfloor>q\<rfloor> else \<lceil>q\<rceil>)"
| "py_int (PyFloat NaN) = Inl ValueError"
| "py_int (PyFloat _) = Inl OverflowError"

fun py_float :: "pyval \<Rightarrow> py_error + pyfloat" where
  \<comment> \<open>\<open>float(v)\<close>\<close>
  "py_float PyNone = Inl TypeError"
| "py_float (PyStr s) = (case py_float_str s of None \<Rightarrow> Inl ValueError | Some f \<Rightarrow> Inr f)"
| "py_float (PyInt n) = Inr (Finite (of_int n))"
| "py_float (PyFloat f) = Inr f"

section \<open>Records\<close>

record student =
  student_id :: string
  name :: string
  age :: int
  grade :: string
  gpa :: pyfloat

definition Student_init :: "string \<Rightarrow> string \<Rightarrow> pyval \<Rightarrow> string \<Rightarrow> pyval \<Rightarrow> py_error + student" where
  \<comment> \<open>\<open>Student.__init__\<close>: only \<open>ValueError\<close> is caught; any other exception of the two
      conversions leaves the constructor.\<close>
  "Student_init student_id' name' age' grade' gpa' =
     (case (case py_int age' of Inl ValueError \<Rightarrow> Inr 0 | r \<Rightarrow> r) of
        Inl e \<Rightarrow> Inl e
      | Inr a \<Rightarrow>
          (case (case py_float gpa' of Inl ValueError \<Rightarrow> Inr (Finite 0) | r \<Rightarrow> r) of
             Inl e \<Rightarrow> Inl e
           | Inr g \<Rightarrow>
               Inr \<lparr>student_id = student_id', name = name', age = a, grade = grade', gpa = g\<rparr>))"

definition FIELDNAMES :: "string list" where
  "FIELDNAMES = [''ID'', ''Name'', ''Age'', ''Grade'', ''GPA'']"


text \<open>
  Every message the program prints, with the data it carries. Banners and the layout of
  a printed record are left out.
\<close>

datatype msg =
    SkippingCorrupted "string list" py_error
  | LoadError py_error
  | NameEmpty
  | AgeNotPositive
  | AgeInvalid
  | GpaOutOfRange
  | GpaInvalid
  | Added string string
  | SearchResults "student list"
  | NoStudentFound string
  | NotFound string
  | StudentFound student
  | Deleted string string
  | Updated string string
  | InvalidAction
  | NoRecords
  | Summary nat pyfloat student

section \<open>The store: loading and saving\<close>

text \<open>
  The file is modelled by the rows the \<open>csv\<close> module reads from it or writes to it, a row
  being the list of its cells and a blank line the empty row; \<open>None\<close> is a file that does
  not exist. Quoting and line ends are the \<open>csv\<close> module's, and I/O failures are not
  modelled.
\<close>

type_synonym csv_file = "string list list option"

definition DictReader :: "string list list \<Rightarrow> string list list" where
  \<comment> \<open>\<open>csv.DictReader\<close> does not return blank rows.\<close>
  "DictReader rows = filter (\<lambda>row. row \<noteq> []) rows"

definition load_row :: "string list \<Rightarrow> py_error + student" where
  \<comment> \<open>The body of the loop of \<open>load_students\<close>. \<open>DictReader\<close> makes every field name a key
      of every row, a missing cell having the value \<open>None\<close>, so the test
      \<open>all(key in row ...)\<close> holds. In a row of fewer than five cells the age or the gpa is
      \<open>None\<close>, and its conversion raises \<open>TypeError\<close>; cells after the fifth are not read.\<close>
  "load_row row =
     (case row of
        i # n # a # g # p # _ \<Rightarrow> Student_init i n (PyStr a) g (PyStr p)
      | _ \<Rightarrow> Inl TypeError)"

fun load_loop :: "string list list \<Rightarrow> student list \<times> msg list" where
  "load_loop [] = ([], [])"
| "load_loop (row # rows) =
     (case load_loop rows of
        (students, out) \<Rightarrow>
          (case load_row row of
             Inl e \<Rightarrow> (students, SkippingCorrupted row e # out)
           | Inr s \<Rightarrow> (s # students, out)))"

definition load_body :: "string list list \<Rightarrow> py_error + student list \<times> msg list" where
  \<comment> \<open>\<open>next(reader)\<close> skips the header row and raises \<open>StopIteration\<close> when there is none.\<close>
  "load_body rows =
     (case DictReader rows of
        [] \<Rightarrow> Inl StopIteration
      | header # data \<Rightarrow> Inr (load_loop data))"

definition load_students :: "csv_file \<Rightarrow> py_error + student list \<times> msg list \<times> csv_file" where
  \<comment> \<open>The result is the collection, the messages printed and the file afterwards.\<close>
  "load_students f =
     (case f of
        None \<Rightarrow> Inr ([], [], Some [FIELDNAMES])
      | Some rows \<Rightarrow>
          (case load_body rows of
             Inl e \<Rightarrow> Inr ([], [LoadError e], f)
           | Inr (students, out) \<Rightarrow> Inr (students, out, f)))"




section \<open>Operations on the collection\<close>

fun next_id_loop :: "int \<Rightarrow> student list \<Rightarrow> int" where
  "next_id_loop max_id [] = max_id"
| "next_id_loop max_id (s # students) =
     (case py_int_str (student_id s) of
        Some n \<Rightarrow> next_id_loop (max max_id n) students
      | None \<Rightarrow> next_id_loop max_id students)"

definition get_next_id :: "student list \<Rightarrow> int" where
  "get_next_id students = (if students = [] then 1001 else next_id_loop 0 students + 1)"

text \<open>
  Standard input is the list of the lines still to be read; \<open>input()\<close> on the empty list
  raises \<open>EOFError\<close>, which no function of the program catches.
\<close>

fun add_read_age :: "string list \<Rightarrow> msg list \<Rightarrow> py_error + int \<times> string list \<times> msg list" where
  "add_read_age [] out = Inl EOFError"
| "add_read_age (l # stdin) out =
     (case py_int_str l of
        None \<Rightarrow> add_read_age stdin (out @ [AgeInvalid])
      | Some a \<Rightarrow>
          if a \<le> 0 then add_read_age stdin (out @ [AgeNotPositive]) else Inr (a, stdin, out))"

fun add_read_gpa :: "string list \<Rightarrow> msg list \<Rightarrow> py_error + pyfloat \<times> string list \<times> msg list" where
  "add_read_gpa [] out = Inl EOFError"
| "add_read_gpa (l # stdin) out =
     (case py_float_str l of
        None \<Rightarrow> add_read_gpa stdin (out @ [GpaInvalid])
      | Some g \<Rightarrow>
          if \<not> (fle (Finite 0) g \<and> fle g (Finite 4))
          then add_read_gpa stdin (out @ [GpaOutOfRange])
          else Inr (g, stdin, out))"

definition add_new_student ::
  "student list \<Rightarrow> string list \<Rightarrow> py_error + student list \<times> string list \<times> msg list" where
  "add_new_student students stdin =
     (let student_id' = py_str_int (get_next_id students) in
      case stdin of
        [] \<Rightarrow> Inl EOFError
      | l # stdin1 \<Rightarrow>
          let name' = strip l in
          if name' = [] then Inr (students, stdin1, [NameEmpty])
          else
            (case add_read_age stdin1 [] of
               Inl e \<Rightarrow> Inl e
             | Inr (age', stdin2, out2) \<Rightarrow>
                 (case stdin2 of
                    [] \<Rightarrow> Inl EOFError
                  | gl # stdin3 \<Rightarrow>
                      (case add_read_gpa stdin3 out2 of
                         Inl e \<Rightarrow> Inl e
                       | Inr (gpa', stdin4, out4) \<Rightarrow>
                           (case Student_init student_id' name' (PyInt age') (strip gl) (PyFloat gpa') of
                              Inl e \<Rightarrow> Inl e
                            | Inr new_student \<Rightarrow>
                                Inr (students @ [new_student], stdin4,
                                     out4 @ [Added name' student_id']))))))"

definition matches :: "string \<Rightarrow> student \<Rightarrow> bool" where
  "matches query s =
     (py_in (lower query) (lower (student_id s)) \<or> py_in (lower query) (lower (name s)))"

definition students_search ::
  "student list \<Rightarrow> string list \<Rightarrow> py_error + string list \<times> msg list" where
  "students_search students stdin =
     (case stdin of
        [] \<Rightarrow> Inl EOFError
      | l # stdin1 \<Rightarrow>
          let query = strip l in
          if query = [] then Inr (stdin1, [])
          else
            (let found_students = filter (matches query) students in
             if found_students \<noteq> [] then Inr (stdin1, [SearchResults found_students])
             else Inr (stdin1, [NoStudentFound query])))"

fun find_student :: "string \<Rightarrow> student list \<Rightarrow> nat option" where
  \<comment> \<open>\<open>next(s for s in students if s.id == student_id)\<close>: the position of the object found,
      \<open>None\<close> for \<open>StopIteration\<close>.\<close>
  "find_student sid [] = None"
| "find_student sid (s # students) =
     (if student_id s = sid then Some 0 else map_option Suc (find_student sid students))"

definition list_remove :: "nat \<Rightarrow> 'a list \<Rightarrow> 'a list" where
  \<comment> \<open>\<open>students.remove(obj)\<close> for the object at position \<open>i\<close>: the class defines no
      equality, so the element removed is that object itself.\<close>
  "list_remove i xs = take i xs @ drop (Suc i) xs"

fun update_read_age :: "student \<Rightarrow> string list \<Rightarrow> msg list \<Rightarrow> py_error + student \<times> string list \<times> msg list" where
  "update_read_age s [] out = Inl EOFError"
| "update_read_age s (l # stdin) out =
     (let new_age = strip l in
      if new_age = [] then Inr (s, stdin, out)
      else
        (case py_int_str new_age of
           None \<Rightarrow> update_read_age s stdin (out @ [AgeInvalid])
         | Some a \<Rightarrow>
             if 0 < a then Inr (s\<lparr>age := a\<rparr>, stdin, out)
             else update_read_age s stdin (out @ [AgeNotPositive])))"

fun update_read_gpa :: "student \<Rightarrow> string list \<Rightarrow> msg list \<Rightarrow> py_error + student \<times> string list \<times> msg list" where
  "update_read_gpa s [] out = Inl EOFError"
| "update_read_gpa s (l # stdin) out =
     (let new_gpa = strip l in
      if new_gpa = [] then Inr (s, stdin, out)
      else
        (case py_float_str new_gpa of
           None \<Rightarrow> update_read_gpa s stdin (out @ [GpaInvalid])
         | Some g \<Rightarrow>
             if fle (Finite 0) g \<and> fle g (Finite 4) then Inr (s\<lparr>gpa := g\<rparr>, stdin, out)
             else update_read_gpa s stdin (out @ [GpaOutOfRange])))"

definition update_fields :: "student \<Rightarrow> string list \<Rightarrow> msg list \<Rightarrow> py_error + student \<times> string list \<times> msg list" where
  \<comment> \<open>The branch \<open>action == 'U'\<close>: the four prompts in the order name, age, grade, gpa.\<close>
  "update_fields s stdin out =
     (case stdin of
        [] \<Rightarrow> Inl EOFError
      | nl # stdin1 \<Rightarrow>
          let new_name = strip nl;
              s1 = (if new_name \<noteq> [] then s\<lparr>name := new_name\<rparr> else s) in
          (case update_read_age s1 stdin1 out of
             Inl e \<Rightarrow> Inl e
           | Inr (s2, stdin2, out2) \<Rightarrow>
               (case stdin2 of
                  [] \<Rightarrow> Inl EOFError
                | gl # stdin3 \<Rightarrow>
                    let new_grade = strip gl;
                        s3 = (if new_grade \<noteq> [] then s2\<lparr>grade := new_grade\<rparr> else s2) in
                    update_read_gpa s3 stdin3 out2)))"

definition update_and_delete ::
  "student list \<Rightarrow> string list \<Rightarrow> py_error + student list \<times> string list \<times> msg list" where
  "update_and_delete students stdin =
     (case stdin of
        [] \<Rightarrow> Inl EOFError
      | l # stdin1 \<Rightarrow>
          let student_id' = strip l in
          (case find_student student_id' students of
             None \<Rightarrow> Inr (students, stdin1, [NotFound student_id'])
           | Some i \<Rightarrow>
               let student_to_modify = students ! i in
               (case stdin1 of
                  [] \<Rightarrow> Inl EOFError
                | al # stdin2 \<Rightarrow>
                    let action = upper (strip al) in
                    if action = ''D'' then
                      Inr (list_remove i students, stdin2,
                           [StudentFound student_to_modify,
                            Deleted student_id' (name student_to_modify)])
                    else if action = ''U'' then
                      (case update_fields student_to_modify stdin2 [StudentFound student_to_modify] of
                         Inl e \<Rightarrow> Inl e
                       | Inr (s', stdin3, out3) \<Rightarrow>
                           Inr (students[i := s'], stdin3, out3 @ [Updated student_id' (name s')]))
                    else Inr (students, stdin2, [StudentFound student_to_modify, InvalidAction]))))"




text \<open>
  The collections a session can hold: the one loaded at startup, and those the menu
  entries 1 (add) and 4 (update and delete) make of it. The other entries do not change
  the collection.
\<close>

inductive reachable :: "csv_file \<Rightarrow> student list \<Rightarrow> bool" for f :: csv_file where
  loaded: "load_students f = Inr (students, out, f') \<Longrightarrow> reachable f students"
| added: "reachable f students \<Longrightarrow> add_new_student students stdin = Inr (students', stdin', out)
          \<Longrightarrow> reachable f students'"
| modified: "reachable f students \<Longrightarrow> update_and_delete students stdin = Inr (students', stdin', out)
          \<Longrightarrow> reachable f students'"

section \<open>Notions of the specification\<close>

definition numeric_ids :: "student list \<Rightarrow> int list" where
  \<comment> \<open>the values of the ids of the collection that parse as integers\<close>
  "numeric_ids students = List.map_filter (\<lambda>s. py_int_str (student_id s)) students"


definition unique_ids :: "student list \<Rightarrow> bool" where
  \<comment> \<open>no two records of the collection have equal id strings\<close>
  "unique_ids students = distinct (map student_id students)"


section \<open>Integer text\<close>

lemma digit_char_props:
  assumes "k < 10"
  shows "is_digit (digit_char k)" and "digit_val (digit_char k) = int k"
proof -
  have k: "k \<in> {0,1,2,3,4,5,6,7,8,9}" using assms by auto
  show "is_digit (digit_char k)" using k by (auto simp: is_digit_def digit_char_def)
  show "digit_val (digit_char k) = int k" using k by (auto simp: digit_val_def digit_char_def)
qed

lemma is_digit_not_space: "is_digit c \<Longrightarrow> \<not> is_space c"
  by (auto simp: is_digit_def is_space_def)

lemma digits_of_digits: "\<forall>c\<in>set (digits_of n). is_digit c"
proof (induction n rule: digits_of.induct)
  case (1 n)
  show ?case
  proof (cases "n < 10")
    case True
    then show ?thesis by (subst digits_of.simps) (simp add: digit_char_props)
  next
    case False
    then show ?thesis using "1.IH" by (subst digits_of.simps) (simp add: digit_char_props)
  qed
qed

lemma digits_of_nonempty: "digits_of n \<noteq> []"
  by (subst digits_of.simps) simp

lemma digits_value_snoc: "digits_value (ds @ [c]) = 10 * digits_value ds + digit_val c"
  by (simp add: digits_value_def)

lemma digits_value_digits_of: "digits_value (digits_of n) = int n"
proof (induction n rule: digits_of.induct)
  case (1 n)
  show ?case
  proof (cases "n < 10")
    case True
    then show ?thesis by (subst digits_of.simps) (simp add: digits_value_def digit_char_props)
  next
    case False
    then show ?thesis using "1.IH"
      by (subst digits_of.simps) (simp add: digits_value_snoc digit_char_props zmod_int zdiv_int)
  qed
qed

lemma digitpart_rest_digits: "\<forall>c\<in>set ds. is_digit c \<Longrightarrow> digitpart_rest ds = Some ds"
  by (induction ds) simp_all

lemma digitpart_digits: "ds \<noteq> [] \<Longrightarrow> \<forall>c\<in>set ds. is_digit c \<Longrightarrow> digitpart ds = Some ds"
  by (cases ds) (simp_all add: digitpart_def digitpart_rest_digits)

lemma dropWhile_id: "s \<noteq> [] \<Longrightarrow> \<not> P (hd s) \<Longrightarrow> dropWhile P s = s"
  by (cases s) simp_all

lemma strip_id: "s \<noteq> [] \<Longrightarrow> \<not> is_space (hd s) \<Longrightarrow> \<not> is_space (last s) \<Longrightarrow> strip s = s"
  by (simp add: strip_def dropWhile_id hd_rev)

lemma signed_int_digits:
  "ds \<noteq> [] \<Longrightarrow> \<forall>c\<in>set ds. is_digit c \<Longrightarrow> signed_int ds = Some (digits_value ds)"
proof -
  assume ne: "ds \<noteq> []" and dg: "\<forall>c\<in>set ds. is_digit c"
  obtain c r where ds: "ds = c # r" using ne by (cases ds) auto
  have "is_digit c" using dg ds by simp
  then have "c \<noteq> CHR ''-''" "c \<noteq> CHR ''+''" by (auto simp: is_digit_def)
  then show ?thesis using digitpart_digits [OF ne dg] by (simp add: signed_int_def ds)
qed

lemma py_int_str_digits:
  assumes ne: "ds \<noteq> []" and dg: "\<forall>c\<in>set ds. is_digit c"
  shows "py_int_str ds = Some (digits_value ds)"
    and "py_int_str (CHR ''-'' # ds) = Some (- digits_value ds)"
proof -
  have h: "\<not> is_space (hd ds)" and l: "\<not> is_space (last ds)"
    using ne dg by (simp_all add: is_digit_not_space)
  show "py_int_str ds = Some (digits_value ds)"
    by (simp add: py_int_str_def strip_id [OF ne h l] signed_int_digits [OF ne dg])
  have m: "\<not> is_space (CHR ''-'')" by (simp add: is_space_def)
  have "strip (CHR ''-'' # ds) = CHR ''-'' # ds"
    using ne l m by (intro strip_id) simp_all
  then show "py_int_str (CHR ''-'' # ds) = Some (- digits_value ds)"
    by (simp add: py_int_str_def signed_int_def digitpart_digits [OF ne dg])
qed

text \<open>The text of an integer reads back as that integer.\<close>

lemma py_int_str_py_str_int: "py_int_str (py_str_int n) = Some n"
  by (simp add: py_str_int_def py_int_str_digits digits_of_nonempty digits_of_digits
        digits_value_digits_of)

section \<open>The next identifier\<close>

lemma numeric_ids_simps:
  "numeric_ids [] = []"
  "numeric_ids (s # ss) =
     (case py_int_str (student_id s) of None \<Rightarrow> numeric_ids ss | Some n \<Rightarrow> n # numeric_ids ss)"
  by (simp_all add: numeric_ids_def map_filter_simps split: option.splits)

lemma set_numeric_ids:
  "set (numeric_ids ss) = {n. \<exists>s\<in>set ss. py_int_str (student_id s) = Some n}"
  by (induction ss) (auto simp: numeric_ids_simps split: option.splits)

lemma Max_insert_max: "finite A \<Longrightarrow> Max (insert (max m n) A) = Max (insert m (insert n A))"
  by (cases "A = {}") (simp_all add: max.assoc)

lemma next_id_loop_Max: "next_id_loop m ss = Max (set (m # numeric_ids ss))"
proof (induction ss arbitrary: m)
  case Nil
  show ?case by (simp add: numeric_ids_simps)
next
  case (Cons s ss)
  show ?case
  proof (cases "py_int_str (student_id s)")
    case None
    then show ?thesis using Cons.IH [of m] by (simp add: numeric_ids_simps)
  next
    case (Some n)
    then show ?thesis
      using Cons.IH [of "max m n"] Max_insert_max [of "set (numeric_ids ss)" m n]
      by (simp add: numeric_ids_simps)
  qed
qed

lemma numeric_ids_empty:
  "(\<forall>s\<in>set ss. py_int_str (student_id s) = None) \<Longrightarrow> numeric_ids ss = []"
  by (induction ss) (simp_all add: numeric_ids_simps)

lemma add_new_student_cases:
  assumes "add_new_student students stdin = Inr (students', stdin', out)"
  shows "students' = students
     \<or> (\<exists>s. students' = students @ [s] \<and> student_id s = py_str_int (get_next_id students))"
  using assms
  by (auto simp: add_new_student_def Let_def Student_init_def
           split: list.splits sum.splits prod.splits if_splits)

text \<open>
  Claim C10. For a non-empty collection in which no id parses as an integer, the running
  maximum stays at its start value 0 and \<open>get_next_id\<close> returns 1; the identifier that
  \<open>add_new_student\<close> makes of it is the string \<open>1\<close>, and a student it appends carries
  that id.
\<close>

theorem get_next_id_no_numeric:
  assumes "students \<noteq> []"
    and "\<forall>s\<in>set students. py_int_str (student_id s) = None"
  shows "get_next_id students = 1 \<and> py_str_int (get_next_id students) = ''1''
     \<and> (\<forall>stdin students' stdin' out.
           add_new_student students stdin = Inr (students', stdin', out) \<longrightarrow>
           students' = students \<or> (\<exists>s. students' = students @ [s] \<and> student_id s = ''1''))"
proof -
  have one: "get_next_id students = 1"
    using assms(1) by (simp add: get_next_id_def next_id_loop_Max numeric_ids_empty [OF assms(2)])
  have str: "py_str_int 1 = ''1''" by code_simp
  show ?thesis using one str add_new_student_cases [of students] by fastforce
qed

theorem get_next_id_no_numeric_witness:
  "[\<lparr>student_id = ''A-7'', name = ''Ann'', age = 20, grade = ''10th'', gpa = Finite 3\<rparr>] \<noteq> []
   \<and> py_int_str (student_id \<lparr>student_id = ''A-7'', name = ''Ann'', age = 20, grade = ''10th'', gpa = Finite 3\<rparr>) = None
   \<and> get_next_id [\<lparr>student_id = ''A-7'', name = ''Ann'', age = 20, grade = ''10th'', gpa = Finite 3\<rparr>] = 1
   \<and> add_new_student [\<lparr>student_id = ''A-7'', name = ''Ann'', age = 20, grade = ''10th'', gpa = Finite 3\<rparr>]
        [''Bob'', ''21'', ''11th'', ''3.5'']
      = Inr ([\<lparr>student_id = ''A-7'', name = ''Ann'', age = 20, grade = ''10th'', gpa = Finite 3\<rparr>,
              \<lparr>student_id = ''1'', name = ''Bob'', age = 21, grade = ''11th'', gpa = Finite (7 / 2)\<rparr>],
             [], [Added ''Bob'' ''1''])"
proof -
  let ?s = "\<lparr>student_id = ''A-7'', name = ''Ann'', age = 20, grade = ''10th'', gpa = Finite 3\<rparr>"
  have h1: "[?s] \<noteq> []" by simp
  have p: "py_int_str ''A-7'' = None" by code_simp
  have h2: "\<forall>s\<in>set [?s]. py_int_str (student_id s) = None" using p by simp
  have a: "add_new_student [?s] [''Bob'', ''21'', ''11th'', ''3.5'']
      = Inr ([?s, \<lparr>student_id = ''1'', name = ''Bob'', age = 21, grade = ''11th'', gpa = Finite (7 / 2)\<rparr>],
             [], [Added ''Bob'' ''1''])" by code_simp
  show ?thesis using get_next_id_no_numeric [OF h1 h2] h1 h2 a by simp
qed

text \<open>
  Claim C2, as amended. On the empty collection \<open>get_next_id\<close> returns 1001, whose text
  is \<open>1001\<close>. On a non-empty collection it returns one more than the greatest of 0 and
  the ids that parse as integers, the other ids being ignored; when some id parses as an
  integer that is not negative, this is the greatest such id plus one. On the ids 1001,
  1002 and 1050 the text of the result is \<open>1051\<close>.
\<close>

theorem get_next_id_max:
  "get_next_id [] = 1001 \<and> py_str_int (get_next_id []) = ''1001''
   \<and> (students \<noteq> [] \<longrightarrow> get_next_id students = Max (set (0 # numeric_ids students)) + 1)
   \<and> (students \<noteq> [] \<longrightarrow> (\<exists>n\<in>set (numeric_ids students). 0 \<le> n) \<longrightarrow>
        get_next_id students = Max (set (numeric_ids students)) + 1)
   \<and> py_str_int (get_next_id
        [\<lparr>student_id = ''1001'', name = ''A'', age = 20, grade = ''10th'', gpa = Finite 3\<rparr>,
         \<lparr>student_id = ''1002'', name = ''B'', age = 21, grade = ''10th'', gpa = Finite 4\<rparr>,
         \<lparr>student_id = ''1050'', name = ''C'', age = 22, grade = ''10th'', gpa = Finite 2\<rparr>]) = ''1051''"
proof -
  have e: "get_next_id [] = 1001" by (simp add: get_next_id_def)
  have s: "py_str_int 1001 = ''1001''" by code_simp
  have g: "students \<noteq> [] \<Longrightarrow> get_next_id students = Max (set (0 # numeric_ids students)) + 1"
    by (simp add: get_next_id_def next_id_loop_Max)
  have p: "Max (set (0 # numeric_ids students)) = Max (set (numeric_ids students))"
    if "\<exists>n\<in>set (numeric_ids students). 0 \<le> n"
  proof -
    from that obtain n where n: "n \<in> set (numeric_ids students)" "0 \<le> n" by blast
    then have ne: "set (numeric_ids students) \<noteq> {}" by auto
    have "n \<le> Max (set (numeric_ids students))" using n(1) by simp
    then have "0 \<le> Max (set (numeric_ids students))" using n(2) by linarith
    then show ?thesis using ne by (simp add: max_def)
  qed
  have x: "py_str_int (get_next_id
        [\<lparr>student_id = ''1001'', name = ''A'', age = 20, grade = ''10th'', gpa = Finite 3\<rparr>,
         \<lparr>student_id = ''1002'', name = ''B'', age = 21, grade = ''10th'', gpa = Finite 4\<rparr>,
         \<lparr>student_id = ''1050'', name = ''C'', age = 22, grade = ''10th'', gpa = Finite 2\<rparr>]) = ''1051''"
    by code_simp
  show ?thesis using e s g p x by simp
qed

theorem get_next_id_max_witness:
  "[\<lparr>student_id = ''1001'', name = ''A'', age = 20, grade = ''10th'', gpa = Finite 3\<rparr>,
    \<lparr>student_id = ''X9'', name = ''B'', age = 21, grade = ''10th'', gpa = Finite 4\<rparr>,
    \<lparr>student_id = ''-7'', name = ''C'', age = 22, grade = ''10th'', gpa = Finite 2\<rparr>] \<noteq> []
   \<and> (\<exists>n\<in>set (numeric_ids
        [\<lparr>student_id = ''1001'', name = ''A'', age = 20, grade = ''10th'', gpa = Finite 3\<rparr>,
         \<lparr>student_id = ''X9'', name = ''B'', age = 21, grade = ''10th'', gpa = Finite 4\<rparr>,
         \<lparr>student_id = ''-7'', name = ''C'', age = 22, grade = ''10th'', gpa = Finite 2\<rparr>]). 0 \<le> n)
   \<and> get_next_id
        [\<lparr>student_id = ''1001'', name = ''A'', age = 20, grade = ''10th'', gpa = Finite 3\<rparr>,
         \<lparr>student_id = ''X9'', name = ''B'', age = 21, grade = ''10th'', gpa = Finite 4\<rparr>,
         \<lparr>student_id = ''-7'', name = ''C'', age = 22, grade = ''10th'', gpa = Finite 2\<rparr>] = 1002"
proof -
  let ?ss = "[\<lparr>student_id = ''1001'', name = ''A'', age = 20, grade = ''10th'', gpa = Finite 3\<rparr>,
    \<lparr>student_id = ''X9'', name = ''B'', age = 21, grade = ''10th'', gpa = Finite 4\<rparr>,
    \<lparr>student_id = ''-7'', name = ''C'', age = 22, grade = ''10th'', gpa = Finite 2\<rparr>]"
  have n: "numeric_ids ?ss = [1001, -7]" by code_simp
  have h1: "?ss \<noteq> []" by simp
  have h2: "\<exists>n\<in>set (numeric_ids ?ss). 0 \<le> n" by (simp add: n)
  have "get_next_id ?ss = Max (set (numeric_ids ?ss)) + 1"
    using get_next_id_max [of ?ss] h1 h2 by blast
  then have "get_next_id ?ss = 1002" by (simp add: n)
  then show ?thesis using h1 h2 by blast
qed

text \<open>
  The claim as first stated fails where every id that parses is negative: the only id is
  \<open>-5\<close>, the result is 1 and not \<open>-5 + 1\<close>.
\<close>

theorem get_next_id_negative_counterexample:
  "[\<lparr>student_id = ''-5'', name = ''A'', age = 20, grade = ''10th'', gpa = Finite 3\<rparr>] \<noteq> []
   \<and> numeric_ids [\<lparr>student_id = ''-5'', name = ''A'', age = 20, grade = ''10th'', gpa = Finite 3\<rparr>] = [-5]
   \<and> get_next_id [\<lparr>student_id = ''-5'', name = ''A'', age = 20, grade = ''10th'', gpa = Finite 3\<rparr>] = 1
   \<and> get_next_id [\<lparr>student_id = ''-5'', name = ''A'', age = 20, grade = ''10th'', gpa = Finite 3\<rparr>]
       \<noteq> Max (set (numeric_ids
             [\<lparr>student_id = ''-5'', name = ''A'', age = 20, grade = ''10th'', gpa = Finite 3\<rparr>])) + 1"
proof -
  let ?ss = "[\<lparr>student_id = ''-5'', name = ''A'', age = 20, grade = ''10th'', gpa = Finite 3\<rparr>]"
  have n: "numeric_ids ?ss = [-5]" by code_simp
  have g: "get_next_id ?ss = 1" by code_simp
  show ?thesis by (simp add: n g)
qed

section \<open>Search, update and delete\<close>

lemma py_in_sublist: "py_in q s = sublist q s"
  by (induction s) (simp_all add: sublist_Cons_right)

text \<open>
  Claim C5. The query is the line read, stripped. An empty query ends the search with
  nothing printed. Otherwise the records selected are exactly those in which the
  lower-cased query is a substring of the lower-cased id or of the lower-cased name, in
  the order of the collection; they are printed, or none-found is reported when there is
  none.
\<close>

theorem students_search_spec:
  "(strip l = [] \<longrightarrow> students_search students (l # stdin) = Inr (stdin, []))
   \<and> (strip l \<noteq> [] \<longrightarrow>
        students_search students (l # stdin) =
          Inr (stdin,
               if filter (\<lambda>s. sublist (lower (strip l)) (lower (student_id s))
                              \<or> sublist (lower (strip l)) (lower (name s))) students = []
               then [NoStudentFound (strip l)]
               else [SearchResults
                       (filter (\<lambda>s. sublist (lower (strip l)) (lower (student_id s))
                                    \<or> sublist (lower (strip l)) (lower (name s))) students)]))"
proof -
  have m: "matches (strip l) =
      (\<lambda>s. sublist (lower (strip l)) (lower (student_id s))
           \<or> sublist (lower (strip l)) (lower (name s)))"
    by (rule ext) (simp add: matches_def py_in_sublist)
  show ?thesis by (simp add: students_search_def Let_def m)
qed

lemma find_student_Some:
  "find_student sid students = Some i \<longleftrightarrow>
     i < length students \<and> student_id (students ! i) = sid
     \<and> (\<forall>j<i. student_id (students ! j) \<noteq> sid)"
proof (induction students arbitrary: i)
  case Nil
  show ?case by simp
next
  case (Cons s students)
  show ?case
  proof (cases "student_id s = sid")
    case True
    then show ?thesis by (cases i) auto
  next
    case False
    show ?thesis
    proof (cases i)
      case 0
      then show ?thesis using False by simp
    next
      case (Suc k)
      have "(\<forall>j<Suc k. student_id ((s # students) ! j) \<noteq> sid)
            \<longleftrightarrow> (\<forall>j<k. student_id (students ! j) \<noteq> sid)"
        using False by (auto simp: less_Suc_eq_0_disj)
      then show ?thesis using False Suc Cons.IH [of k] by auto
    qed
  qed
qed

lemma find_student_None:
  "find_student sid students = None \<longleftrightarrow> (\<forall>s\<in>set students. student_id s \<noteq> sid)"
  by (induction students) auto

text \<open>
  Claim C9. When the record is found and the action, stripped and upper-cased, is neither
  \<open>D\<close> nor \<open>U\<close>, the operation reports an invalid action and returns the collection as
  it was, the found record included.
\<close>

theorem update_and_delete_invalid_action:
  assumes "find_student (strip l) students = Some i"
    and "upper (strip al) \<noteq> ''D''" and "upper (strip al) \<noteq> ''U''"
  shows "update_and_delete students (l # al # stdin) =
           Inr (students, stdin, [StudentFound (students ! i), InvalidAction])"
  using assms by (simp add: update_and_delete_def Let_def)

text \<open>
  Claim C8. When the record is found, the action is \<open>U\<close> and the four answers (name, age,
  grade, gpa) are empty, the collection returned is the one given: the record keeps its
  five fields and the collection its members and order.
\<close>

theorem update_and_delete_all_empty:
  assumes "find_student (strip l) students = Some i"
    and "upper (strip al) = ''U''"
    and "strip name_line = []" and "strip age_line = []"
    and "strip grade_line = []" and "strip gpa_line = []"
  shows "update_and_delete students (l # al # name_line # age_line # grade_line # gpa_line # stdin) =
           Inr (students, stdin,
                [StudentFound (students ! i), Updated (strip l) (name (students ! i))])"
  using assms by (simp add: update_and_delete_def update_fields_def Let_def)

text \<open>
  Claim C6. The record found is the first whose id is equal, as a string, to the id
  entered (stripped). With the action \<open>D\<close> exactly the record at that position is removed:
  the records before and after it stay, in order, and the collection is one shorter. When
  no record has the id entered, the collection is returned as it was and not-found is
  reported.
\<close>

theorem update_and_delete_delete:
  "(find_student sid students = Some i \<longleftrightarrow>
      i < length students \<and> student_id (students ! i) = sid
      \<and> (\<forall>j<i. student_id (students ! j) \<noteq> sid))
   \<and> (find_student (strip l) students = Some i \<longrightarrow> upper (strip al) = ''D'' \<longrightarrow>
        update_and_delete students (l # al # stdin) =
          Inr (take i students @ drop (Suc i) students, stdin,
               [StudentFound (students ! i), Deleted (strip l) (name (students ! i))])
        \<and> Suc (length (take i students @ drop (Suc i) students)) = length students)
   \<and> ((\<forall>s\<in>set students. student_id s \<noteq> strip l) \<longrightarrow>
        update_and_delete students (l # stdin) = Inr (students, stdin, [NotFound (strip l)]))"
proof -
  have a: "find_student sid students = Some i \<longleftrightarrow>
      i < length students \<and> student_id (students ! i) = sid
      \<and> (\<forall>j<i. student_id (students ! j) \<noteq> sid)"
    by (rule find_student_Some)
  have b: "update_and_delete students (l # al # stdin) =
          Inr (take i students @ drop (Suc i) students, stdin,
               [StudentFound (students ! i), Deleted (strip l) (name (students ! i))])
        \<and> Suc (length (take i students @ drop (Suc i) students)) = length students"
    if f: "find_student (strip l) students = Some i" and d: "upper (strip al) = ''D''"
  proof -
    have "i < length students" using f by (simp add: find_student_Some)
    then have "Suc (length (take i students @ drop (Suc i) students)) = length students"
      by simp
    then show ?thesis using f d by (simp add: update_and_delete_def Let_def list_remove_def)
  qed
  have c: "update_and_delete students (l # stdin) = Inr (students, stdin, [NotFound (strip l)])"
    if "\<forall>s\<in>set students. student_id s \<noteq> strip l"
  proof -
    have "find_student (strip l) students = None" using that by (simp add: find_student_None)
    then show ?thesis by (simp add: update_and_delete_def Let_def)
  qed
  show ?thesis using a b c by blast
qed


theorem students_search_spec_witness:
  "strip '' bO '' \<noteq> []
   \<and> students_search [\<lparr>student_id = ''A1'', name = ''Ann'', age = 20, grade = ''10th'', gpa = Finite 3\<rparr>,
      \<lparr>student_id = ''1002'', name = ''Bob'', age = 21, grade = ''11th'', gpa = Finite 4\<rparr>,
      \<lparr>student_id = ''1002'', name = ''Cy'', age = 22, grade = ''12th'', gpa = Finite 2\<rparr>] ['' bO '', ''next''] = Inr ([''next''], [SearchResults [\<lparr>student_id = ''1002'', name = ''Bob'', age = 21, grade = ''11th'', gpa = Finite 4\<rparr>]])
   \<and> students_search [\<lparr>student_id = ''A1'', name = ''Ann'', age = 20, grade = ''10th'', gpa = Finite 3\<rparr>,
      \<lparr>student_id = ''1002'', name = ''Bob'', age = 21, grade = ''11th'', gpa = Finite 4\<rparr>,
      \<lparr>student_id = ''1002'', name = ''Cy'', age = 22, grade = ''12th'', gpa = Finite 2\<rparr>] [''a1''] = Inr ([], [SearchResults [\<lparr>student_id = ''A1'', name = ''Ann'', age = 20, grade = ''10th'', gpa = Finite 3\<rparr>]])
   \<and> strip ''zed'' \<noteq> []
   \<and> students_search [\<lparr>student_id = ''A1'', name = ''Ann'', age = 20, grade = ''10th'', gpa = Finite 3\<rparr>,
      \<lparr>student_id = ''1002'', name = ''Bob'', age = 21, grade = ''11th'', gpa = Finite 4\<rparr>,
      \<lparr>student_id = ''1002'', name = ''Cy'', age = 22, grade = ''12th'', gpa = Finite 2\<rparr>] [''zed''] = Inr ([], [NoStudentFound ''zed''])
   \<and> strip ''  '' = []
   \<and> students_search [\<lparr>student_id = ''A1'', name = ''Ann'', age = 20, grade = ''10th'', gpa = Finite 3\<rparr>,
      \<lparr>student_id = ''1002'', name = ''Bob'', age = 21, grade = ''11th'', gpa = Finite 4\<rparr>,
      \<lparr>student_id = ''1002'', name = ''Cy'', age = 22, grade = ''12th'', gpa = Finite 2\<rparr>] [''  '', ''next''] = Inr ([''next''], [])"
proof -
  let ?P = "\<lambda>q s. sublist (lower q) (lower (student_id s)) \<or> sublist (lower q) (lower (name s))"
  have s1: "strip '' bO '' = ''bO''" and s2: "strip ''a1'' = ''a1''"
    and s3: "strip ''zed'' = ''zed''" and s4: "strip ''  '' = []"
    by code_simp+
  have f1: "filter (?P ''bO'') [\<lparr>student_id = ''A1'', name = ''Ann'', age = 20, grade = ''10th'', gpa = Finite 3\<rparr>,
      \<lparr>student_id = ''1002'', name = ''Bob'', age = 21, grade = ''11th'', gpa = Finite 4\<rparr>,
      \<lparr>student_id = ''1002'', name = ''Cy'', age = 22, grade = ''12th'', gpa = Finite 2\<rparr>] = [\<lparr>student_id = ''1002'', name = ''Bob'', age = 21, grade = ''11th'', gpa = Finite 4\<rparr>]" by code_simp
  have f2: "filter (?P ''a1'') [\<lparr>student_id = ''A1'', name = ''Ann'', age = 20, grade = ''10th'', gpa = Finite 3\<rparr>,
      \<lparr>student_id = ''1002'', name = ''Bob'', age = 21, grade = ''11th'', gpa = Finite 4\<rparr>,
      \<lparr>student_id = ''1002'', name = ''Cy'', age = 22, grade = ''12th'', gpa = Finite 2\<rparr>] = [\<lparr>student_id = ''A1'', name = ''Ann'', age = 20, grade = ''10th'', gpa = Finite 3\<rparr>]" by code_simp
  have f3: "filter (?P ''zed'') [\<lparr>student_id = ''A1'', name = ''Ann'', age = 20, grade = ''10th'', gpa = Finite 3\<rparr>,
      \<lparr>student_id = ''1002'', name = ''Bob'', age = 21, grade = ''11th'', gpa = Finite 4\<rparr>,
      \<lparr>student_id = ''1002'', name = ''Cy'', age = 22, grade = ''12th'', gpa = Finite 2\<rparr>] = []" by code_simp
  have r1: "students_search [\<lparr>student_id = ''A1'', name = ''Ann'', age = 20, grade = ''10th'', gpa = Finite 3\<rparr>,
      \<lparr>student_id = ''1002'', name = ''Bob'', age = 21, grade = ''11th'', gpa = Finite 4\<rparr>,
      \<lparr>student_id = ''1002'', name = ''Cy'', age = 22, grade = ''12th'', gpa = Finite 2\<rparr>] ['' bO '', ''next''] = Inr ([''next''], [SearchResults [\<lparr>student_id = ''1002'', name = ''Bob'', age = 21, grade = ''11th'', gpa = Finite 4\<rparr>]])"
    using students_search_spec [of "'' bO ''" "[\<lparr>student_id = ''A1'', name = ''Ann'', age = 20, grade = ''10th'', gpa = Finite 3\<rparr>,
      \<lparr>student_id = ''1002'', name = ''Bob'', age = 21, grade = ''11th'', gpa = Finite 4\<rparr>,
      \<lparr>student_id = ''1002'', name = ''Cy'', age = 22, grade = ''12th'', gpa = Finite 2\<rparr>]" "[''next'']"]
    by (simp only: s1 f1) simp
  have r2: "students_search [\<lparr>student_id = ''A1'', name = ''Ann'', age = 20, grade = ''10th'', gpa = Finite 3\<rparr>,
      \<lparr>student_id = ''1002'', name = ''Bob'', age = 21, grade = ''11th'', gpa = Finite 4\<rparr>,
      \<lparr>student_id = ''1002'', name = ''Cy'', age = 22, grade = ''12th'', gpa = Finite 2\<rparr>] [''a1''] = Inr ([], [SearchResults [\<lparr>student_id = ''A1'', name = ''Ann'', age = 20, grade = ''10th'', gpa = Finite 3\<rparr>]])"
    using students_search_spec [of "''a1''" "[\<lparr>student_id = ''A1'', name = ''Ann'', age = 20, grade = ''10th'', gpa = Finite 3\<rparr>,
      \<lparr>student_id = ''1002'', name = ''Bob'', age = 21, grade = ''11th'', gpa = Finite 4\<rparr>,
      \<lparr>student_id = ''1002'', name = ''Cy'', age = 22, grade = ''12th'', gpa = Finite 2\<rparr>]" "[]"]
    by (simp only: s2 f2) simp
  have r3: "students_search [\<lparr>student_id = ''A1'', name = ''Ann'', age = 20, grade = ''10th'', gpa = Finite 3\<rparr>,
      \<lparr>student_id = ''1002'', name = ''Bob'', age = 21, grade = ''11th'', gpa = Finite 4\<rparr>,
      \<lparr>student_id = ''1002'', name = ''Cy'', age = 22, grade = ''12th'', gpa = Finite 2\<rparr>] [''zed''] = Inr ([], [NoStudentFound ''zed''])"
    using students_search_spec [of "''zed''" "[\<lparr>student_id = ''A1'', name = ''Ann'', age = 20, grade = ''10th'', gpa = Finite 3\<rparr>,
      \<lparr>student_id = ''1002'', name = ''Bob'', age = 21, grade = ''11th'', gpa = Finite 4\<rparr>,
      \<lparr>student_id = ''1002'', name = ''Cy'', age = 22, grade = ''12th'', gpa = Finite 2\<rparr>]" "[]"]
    by (simp only: s3 f3) simp
  have r4: "students_search [\<lparr>student_id = ''A1'', name = ''Ann'', age = 20, grade = ''10th'', gpa = Finite 3\<rparr>,
      \<lparr>student_id = ''1002'', name = ''Bob'', age = 21, grade = ''11th'', gpa = Finite 4\<rparr>,
      \<lparr>student_id = ''1002'', name = ''Cy'', age = 22, grade = ''12th'', gpa = Finite 2\<rparr>] [''  '', ''next''] = Inr ([''next''], [])"
    using students_search_spec [of "''  ''" "[\<lparr>student_id = ''A1'', name = ''Ann'', age = 20, grade = ''10th'', gpa = Finite 3\<rparr>,
      \<lparr>student_id = ''1002'', name = ''Bob'', age = 21, grade = ''11th'', gpa = Finite 4\<rparr>,
      \<lparr>student_id = ''1002'', name = ''Cy'', age = 22, grade = ''12th'', gpa = Finite 2\<rparr>]" "[''next'']"]
    by (simp add: s4)
  show ?thesis using r1 r2 r3 r4 s1 s3 s4 by simp
qed

theorem update_and_delete_invalid_action_witness:
  "find_student (strip ''1002 '') [\<lparr>student_id = ''A1'', name = ''Ann'', age = 20, grade = ''10th'', gpa = Finite 3\<rparr>,
      \<lparr>student_id = ''1002'', name = ''Bob'', age = 21, grade = ''11th'', gpa = Finite 4\<rparr>,
      \<lparr>student_id = ''1002'', name = ''Cy'', age = 22, grade = ''12th'', gpa = Finite 2\<rparr>] = Some 1
   \<and> upper (strip '' x'') \<noteq> ''D'' \<and> upper (strip '' x'') \<noteq> ''U''
   \<and> update_and_delete [\<lparr>student_id = ''A1'', name = ''Ann'', age = 20, grade = ''10th'', gpa = Finite 3\<rparr>,
      \<lparr>student_id = ''1002'', name = ''Bob'', age = 21, grade = ''11th'', gpa = Finite 4\<rparr>,
      \<lparr>student_id = ''1002'', name = ''Cy'', age = 22, grade = ''12th'', gpa = Finite 2\<rparr>] [''1002 '', '' x'', ''next''] =
        Inr ([\<lparr>student_id = ''A1'', name = ''Ann'', age = 20, grade = ''10th'', gpa = Finite 3\<rparr>,
      \<lparr>student_id = ''1002'', name = ''Bob'', age = 21, grade = ''11th'', gpa = Finite 4\<rparr>,
      \<lparr>student_id = ''1002'', name = ''Cy'', age = 22, grade = ''12th'', gpa = Finite 2\<rparr>], [''next''], [StudentFound \<lparr>student_id = ''1002'', name = ''Bob'', age = 21, grade = ''11th'', gpa = Finite 4\<rparr>, InvalidAction])"
proof -
  have f: "find_student (strip ''1002 '') [\<lparr>student_id = ''A1'', name = ''Ann'', age = 20, grade = ''10th'', gpa = Finite 3\<rparr>,
      \<lparr>student_id = ''1002'', name = ''Bob'', age = 21, grade = ''11th'', gpa = Finite 4\<rparr>,
      \<lparr>student_id = ''1002'', name = ''Cy'', age = 22, grade = ''12th'', gpa = Finite 2\<rparr>] = Some 1" by code_simp
  have d: "upper (strip '' x'') \<noteq> ''D''" and u: "upper (strip '' x'') \<noteq> ''U''" by code_simp+
  show ?thesis
    using update_and_delete_invalid_action [OF f d u, of "[''next'']"] f d u by simp
qed

theorem update_and_delete_all_empty_witness:
  "find_student (strip ''1002 '') [\<lparr>student_id = ''A1'', name = ''Ann'', age = 20, grade = ''10th'', gpa = Finite 3\<rparr>,
      \<lparr>student_id = ''1002'', name = ''Bob'', age = 21, grade = ''11th'', gpa = Finite 4\<rparr>,
      \<lparr>student_id = ''1002'', name = ''Cy'', age = 22, grade = ''12th'', gpa = Finite 2\<rparr>] = Some 1
   \<and> upper (strip '' u '') = ''U''
   \<and> update_and_delete [\<lparr>student_id = ''A1'', name = ''Ann'', age = 20, grade = ''10th'', gpa = Finite 3\<rparr>,
      \<lparr>student_id = ''1002'', name = ''Bob'', age = 21, grade = ''11th'', gpa = Finite 4\<rparr>,
      \<lparr>student_id = ''1002'', name = ''Cy'', age = 22, grade = ''12th'', gpa = Finite 2\<rparr>] [''1002 '', '' u '', [], [], [], [], ''next''] =
        Inr ([\<lparr>student_id = ''A1'', name = ''Ann'', age = 20, grade = ''10th'', gpa = Finite 3\<rparr>,
      \<lparr>student_id = ''1002'', name = ''Bob'', age = 21, grade = ''11th'', gpa = Finite 4\<rparr>,
      \<lparr>student_id = ''1002'', name = ''Cy'', age = 22, grade = ''12th'', gpa = Finite 2\<rparr>], [''next''], [StudentFound \<lparr>student_id = ''1002'', name = ''Bob'', age = 21, grade = ''11th'', gpa = Finite 4\<rparr>, Updated ''1002'' ''Bob''])"
proof -
  have f: "find_student (strip ''1002 '') [\<lparr>student_id = ''A1'', name = ''Ann'', age = 20, grade = ''10th'', gpa = Finite 3\<rparr>,
      \<lparr>student_id = ''1002'', name = ''Bob'', age = 21, grade = ''11th'', gpa = Finite 4\<rparr>,
      \<lparr>student_id = ''1002'', name = ''Cy'', age = 22, grade = ''12th'', gpa = Finite 2\<rparr>] = Some 1" by code_simp
  have u: "upper (strip '' u '') = ''U''" by code_simp
  have e: "strip [] = []" by code_simp
  have s: "strip ''1002 '' = ''1002''" by code_simp
  show ?thesis
    using update_and_delete_all_empty [OF f u e e e e, of "[''next'']"] f u s by simp
qed

theorem update_and_delete_delete_witness:
  "find_student (strip ''1002 '') [\<lparr>student_id = ''A1'', name = ''Ann'', age = 20, grade = ''10th'', gpa = Finite 3\<rparr>,
      \<lparr>student_id = ''1002'', name = ''Bob'', age = 21, grade = ''11th'', gpa = Finite 4\<rparr>,
      \<lparr>student_id = ''1002'', name = ''Cy'', age = 22, grade = ''12th'', gpa = Finite 2\<rparr>] = Some 1
   \<and> upper (strip '' d '') = ''D''
   \<and> update_and_delete [\<lparr>student_id = ''A1'', name = ''Ann'', age = 20, grade = ''10th'', gpa = Finite 3\<rparr>,
      \<lparr>student_id = ''1002'', name = ''Bob'', age = 21, grade = ''11th'', gpa = Finite 4\<rparr>,
      \<lparr>student_id = ''1002'', name = ''Cy'', age = 22, grade = ''12th'', gpa = Finite 2\<rparr>] [''1002 '', '' d '', ''next''] =
        Inr ([\<lparr>student_id = ''A1'', name = ''Ann'', age = 20, grade = ''10th'', gpa = Finite 3\<rparr>,
      \<lparr>student_id = ''1002'', name = ''Cy'', age = 22, grade = ''12th'', gpa = Finite 2\<rparr>], [''next''], [StudentFound \<lparr>student_id = ''1002'', name = ''Bob'', age = 21, grade = ''11th'', gpa = Finite 4\<rparr>, Deleted ''1002'' ''Bob''])
   \<and> find_student (strip ''a1'') [\<lparr>student_id = ''A1'', name = ''Ann'', age = 20, grade = ''10th'', gpa = Finite 3\<rparr>,
      \<lparr>student_id = ''1002'', name = ''Bob'', age = 21, grade = ''11th'', gpa = Finite 4\<rparr>,
      \<lparr>student_id = ''1002'', name = ''Cy'', age = 22, grade = ''12th'', gpa = Finite 2\<rparr>] = None
   \<and> update_and_delete [\<lparr>student_id = ''A1'', name = ''Ann'', age = 20, grade = ''10th'', gpa = Finite 3\<rparr>,
      \<lparr>student_id = ''1002'', name = ''Bob'', age = 21, grade = ''11th'', gpa = Finite 4\<rparr>,
      \<lparr>student_id = ''1002'', name = ''Cy'', age = 22, grade = ''12th'', gpa = Finite 2\<rparr>] [''a1'', ''next''] = Inr ([\<lparr>student_id = ''A1'', name = ''Ann'', age = 20, grade = ''10th'', gpa = Finite 3\<rparr>,
      \<lparr>student_id = ''1002'', name = ''Bob'', age = 21, grade = ''11th'', gpa = Finite 4\<rparr>,
      \<lparr>student_id = ''1002'', name = ''Cy'', age = 22, grade = ''12th'', gpa = Finite 2\<rparr>], [''next''], [NotFound ''a1''])"
proof -
  have f: "find_student (strip ''1002 '') [\<lparr>student_id = ''A1'', name = ''Ann'', age = 20, grade = ''10th'', gpa = Finite 3\<rparr>,
      \<lparr>student_id = ''1002'', name = ''Bob'', age = 21, grade = ''11th'', gpa = Finite 4\<rparr>,
      \<lparr>student_id = ''1002'', name = ''Cy'', age = 22, grade = ''12th'', gpa = Finite 2\<rparr>] = Some 1" by code_simp
  have d: "upper (strip '' d '') = ''D''" by code_simp
  have s: "strip ''1002 '' = ''1002''" and s2: "strip ''a1'' = ''a1''" by code_simp+
  have n: "find_student (strip ''a1'') [\<lparr>student_id = ''A1'', name = ''Ann'', age = 20, grade = ''10th'', gpa = Finite 3\<rparr>,
      \<lparr>student_id = ''1002'', name = ''Bob'', age = 21, grade = ''11th'', gpa = Finite 4\<rparr>,
      \<lparr>student_id = ''1002'', name = ''Cy'', age = 22, grade = ''12th'', gpa = Finite 2\<rparr>] = None" by code_simp
  have nf: "\<forall>s\<in>set [\<lparr>student_id = ''A1'', name = ''Ann'', age = 20, grade = ''10th'', gpa = Finite 3\<rparr>,
      \<lparr>student_id = ''1002'', name = ''Bob'', age = 21, grade = ''11th'', gpa = Finite 4\<rparr>,
      \<lparr>student_id = ''1002'', name = ''Cy'', age = 22, grade = ''12th'', gpa = Finite 2\<rparr>]. student_id s \<noteq> strip ''a1''"
    by (simp add: s2)
  have r1: "update_and_delete [\<lparr>student_id = ''A1'', name = ''Ann'', age = 20, grade = ''10th'', gpa = Finite 3\<rparr>,
      \<lparr>student_id = ''1002'', name = ''Bob'', age = 21, grade = ''11th'', gpa = Finite 4\<rparr>,
      \<lparr>student_id = ''1002'', name = ''Cy'', age = 22, grade = ''12th'', gpa = Finite 2\<rparr>] [''1002 '', '' d '', ''next''] =
        Inr ([\<lparr>student_id = ''A1'', name = ''Ann'', age = 20, grade = ''10th'', gpa = Finite 3\<rparr>,
      \<lparr>student_id = ''1002'', name = ''Cy'', age = 22, grade = ''12th'', gpa = Finite 2\<rparr>], [''next''], [StudentFound \<lparr>student_id = ''1002'', name = ''Bob'', age = 21, grade = ''11th'', gpa = Finite 4\<rparr>, Deleted ''1002'' ''Bob''])"
    using update_and_delete_delete [of "''1002''" "[\<lparr>student_id = ''A1'', name = ''Ann'', age = 20, grade = ''10th'', gpa = Finite 3\<rparr>,
      \<lparr>student_id = ''1002'', name = ''Bob'', age = 21, grade = ''11th'', gpa = Finite 4\<rparr>,
      \<lparr>student_id = ''1002'', name = ''Cy'', age = 22, grade = ''12th'', gpa = Finite 2\<rparr>]" 1 "''1002 ''" "'' d ''" "[''next'']"] f d
    by (simp add: s)
  have r2: "update_and_delete [\<lparr>student_id = ''A1'', name = ''Ann'', age = 20, grade = ''10th'', gpa = Finite 3\<rparr>,
      \<lparr>student_id = ''1002'', name = ''Bob'', age = 21, grade = ''11th'', gpa = Finite 4\<rparr>,
      \<lparr>student_id = ''1002'', name = ''Cy'', age = 22, grade = ''12th'', gpa = Finite 2\<rparr>] [''a1'', ''next''] = Inr ([\<lparr>student_id = ''A1'', name = ''Ann'', age = 20, grade = ''10th'', gpa = Finite 3\<rparr>,
      \<lparr>student_id = ''1002'', name = ''Bob'', age = 21, grade = ''11th'', gpa = Finite 4\<rparr>,
      \<lparr>student_id = ''1002'', name = ''Cy'', age = 22, grade = ''12th'', gpa = Finite 2\<rparr>], [''next''], [NotFound ''a1''])"
    using update_and_delete_delete [of "''a1''" "[\<lparr>student_id = ''A1'', name = ''Ann'', age = 20, grade = ''10th'', gpa = Finite 3\<rparr>,
      \<lparr>student_id = ''1002'', name = ''Bob'', age = 21, grade = ''11th'', gpa = Finite 4\<rparr>,
      \<lparr>student_id = ''1002'', name = ''Cy'', age = 22, grade = ''12th'', gpa = Finite 2\<rparr>]" 0 "''a1''" "[]" "[''next'']"] nf
    by (simp add: s2)
  show ?thesis using f d n r1 r2 by simp
qed

section \<open>Average and topper\<close>



lemma fgt_neq: "fgt a b \<Longrightarrow> b \<noteq> a"
  by (cases a; cases b) simp_all


lemma fle_trans: "fle a b \<Longrightarrow> fle b c \<Longrightarrow> fle a c"
  by (cases a; cases b; cases c) simp_all










section \<open>Loading and saving\<close>


















section \<open>Uniqueness of the ids\<close>

lemma get_next_id_fresh:
  assumes "s \<in> set students"
  shows "student_id s \<noteq> py_str_int (get_next_id students)"
proof
  assume eq: "student_id s = py_str_int (get_next_id students)"
  have ne: "students \<noteq> []" using assms by auto
  let ?M = "Max (set (0 # numeric_ids students))"
  have g: "get_next_id students = ?M + 1"
    using ne by (simp add: get_next_id_def next_id_loop_Max)
  have "py_int_str (student_id s) = Some (?M + 1)"
    using eq g py_int_str_py_str_int [of "?M + 1"] by simp
  then have "?M + 1 \<in> set (numeric_ids students)"
    using assms by (auto simp: set_numeric_ids)
  then have "?M + 1 \<in> set (0 # numeric_ids students)" by simp
  then have "?M + 1 \<le> ?M" by (intro Max_ge) simp_all
  then show False by simp
qed

lemma update_read_age_id:
  "update_read_age s stdin out = Inr (s', stdin', out') \<Longrightarrow> student_id s' = student_id s"
proof (induction s stdin out rule: update_read_age.induct)
  case (1 s out)
  then show ?case by simp
next
  case (2 s l stdin out)
  then show ?case
    by (auto simp: Let_def split: if_splits option.splits)
qed

lemma update_read_gpa_id:
  "update_read_gpa s stdin out = Inr (s', stdin', out') \<Longrightarrow> student_id s' = student_id s"
proof (induction s stdin out rule: update_read_gpa.induct)
  case (1 s out)
  then show ?case by simp
next
  case (2 s l stdin out)
  then show ?case
    by (auto simp: Let_def split: if_splits option.splits)
qed

lemma update_fields_id:
  assumes "update_fields s stdin out = Inr (s', stdin', out')"
  shows "student_id s' = student_id s"
proof -
  from assms obtain nl stdin1 s2 stdin2 out2 gl stdin3 where
    a: "update_read_age (if strip nl \<noteq> [] then s\<lparr>name := strip nl\<rparr> else s) stdin1 out
          = Inr (s2, stdin2, out2)"
    and g: "update_read_gpa (if strip gl \<noteq> [] then s2\<lparr>grade := strip gl\<rparr> else s2) stdin3 out2
          = Inr (s', stdin', out')"
    by (auto simp: update_fields_def Let_def split: list.splits sum.splits prod.splits)
  have "student_id s2 = student_id s" using update_read_age_id [OF a] by (simp split: if_splits)
  moreover have "student_id s' = student_id s2"
    using update_read_gpa_id [OF g] by (simp split: if_splits)
  ultimately show ?thesis by simp
qed

lemma update_and_delete_cases:
  assumes "update_and_delete students stdin = Inr (students', stdin', out)"
  shows "students' = students
     \<or> (\<exists>i<length students. students' = list_remove i students)
     \<or> (\<exists>i s'. i < length students \<and> students' = students[i := s']
            \<and> student_id s' = student_id (students ! i))"
proof -
  from assms obtain l stdin1 where st: "stdin = l # stdin1"
    by (cases stdin) (simp_all add: update_and_delete_def)
  show ?thesis
  proof (cases "find_student (strip l) students")
    case None
    then show ?thesis using assms st by (simp add: update_and_delete_def Let_def)
  next
    case (Some i)
    then have i: "i < length students" by (simp add: find_student_Some)
    from assms Some st obtain al stdin2 where st1: "stdin1 = al # stdin2"
      by (cases stdin1) (simp_all add: update_and_delete_def Let_def)
    consider (D) "upper (strip al) = ''D''" | (U) "upper (strip al) = ''U''"
      | (other) "upper (strip al) \<noteq> ''D''" "upper (strip al) \<noteq> ''U''"
      by blast
    then show ?thesis
    proof cases
      case D
      then have "students' = list_remove i students"
        using assms st st1 Some by (simp add: update_and_delete_def Let_def)
      then show ?thesis using i by blast
    next
      case U
      then obtain s' stdin3 out3 where
        u: "update_fields (students ! i) stdin2 [StudentFound (students ! i)] = Inr (s', stdin3, out3)"
        and r: "students' = students[i := s']"
        using assms st st1 Some
        by (auto simp: update_and_delete_def Let_def split: sum.splits prod.splits)
      have "student_id s' = student_id (students ! i)" using update_fields_id [OF u] .
      then show ?thesis using r i by blast
    next
      case other
      then show ?thesis using assms st st1 Some by (simp add: update_and_delete_def Let_def)
    qed
  qed
qed

lemma distinct_remove_nth:
  assumes "distinct ys"
  shows "distinct (take i ys @ drop (Suc i) ys)"
proof -
  have "distinct (take i ys @ drop i ys)" using assms by simp
  then have disj: "set (take i ys) \<inter> set (drop i ys) = {}"
    by (simp only: distinct_append)
  have sub: "set (drop (Suc i) ys) \<subseteq> set (drop i ys)"
    by (rule set_drop_subset_set_drop) simp
  have "set (take i ys) \<inter> set (drop (Suc i) ys) = {}" using disj sub by blast
  then show ?thesis using assms by (simp add: distinct_append)
qed

lemma unique_ids_remove:
  assumes "unique_ids students"
  shows "unique_ids (list_remove i students)"
proof -
  have "distinct (map student_id students)" using assms by (simp add: unique_ids_def)
  then have "distinct (take i (map student_id students) @ drop (Suc i) (map student_id students))"
    by (rule distinct_remove_nth)
  then show ?thesis by (simp add: unique_ids_def list_remove_def take_map drop_map)
qed

lemma unique_ids_update:
  assumes "unique_ids students" and "i < length students"
    and "student_id s' = student_id (students ! i)"
  shows "unique_ids (students[i := s'])"
proof -
  have "map student_id (students[i := s']) =
        (map student_id students)[i := map student_id students ! i]"
    using assms(2,3) by (simp add: map_update)
  also have "\<dots> = map student_id students" by (rule list_update_id)
  finally show ?thesis using assms(1) by (simp add: unique_ids_def)
qed

lemma unique_ids_append:
  "unique_ids students \<Longrightarrow> \<forall>s\<in>set students. student_id s \<noteq> student_id new
   \<Longrightarrow> unique_ids (students @ [new])"
  by (auto simp: unique_ids_def)

text \<open>
  Claim C1, as amended. When the collection that \<open>load_students\<close> builds has no two
  records with equal ids, every collection reached from it by \<open>add_new_student\<close> and by
  the delete and update branches of \<open>update_and_delete\<close> has none either: a new id is
  one more than every id that parses and so differs from all ids present, a deletion only
  removes a record, and an update leaves the ids alone.
\<close>

theorem unique_ids_invariant:
  assumes "load_students f = Inr (students0, out0, f0)"
    and "unique_ids students0"
    and "reachable f students"
  shows "unique_ids students"
  using assms(3)
proof (induction rule: reachable.induct)
  case (loaded students out f')
  then show ?case using assms(1,2) by simp
next
  case (added students stdin students' stdin' out)
  from add_new_student_cases [OF added.hyps(2)]
  show ?case
  proof
    assume "students' = students"
    then show ?thesis using added.IH by simp
  next
    assume "\<exists>s. students' = students @ [s] \<and> student_id s = py_str_int (get_next_id students)"
    then obtain s where s: "students' = students @ [s]"
      "student_id s = py_str_int (get_next_id students)" by blast
    have "\<forall>x\<in>set students. student_id x \<noteq> student_id s"
      using get_next_id_fresh s(2) by simp
    then show ?thesis using added.IH s(1) unique_ids_append by simp
  qed
next
  case (modified students stdin students' stdin' out)
  from update_and_delete_cases [OF modified.hyps(2)]
  consider (same) "students' = students"
    | (removed) i where "students' = list_remove i students"
    | (updated) i s' where "i < length students" "students' = students[i := s']"
        "student_id s' = student_id (students ! i)"
    by blast
  then show ?case
  proof cases
    case same
    then show ?thesis using modified.IH by simp
  next
    case removed
    then show ?thesis using unique_ids_remove [OF modified.IH] by simp
  next
    case updated
    then show ?thesis using unique_ids_update [OF modified.IH updated(1,3)] by simp
  qed
qed


theorem unique_ids_invariant_witness:
  "load_students (Some 
      [FIELDNAMES, [''1001'', ''Ann'', ''20'', ''10th'', ''3.5''], [''1002'', ''Bob'', ''21'', ''11th'', ''4.0'']]) = Inr ([
      \<lparr>student_id = ''1001'', name = ''Ann'', age = 20, grade = ''10th'', gpa = Finite (7 / 2)\<rparr>, 
      \<lparr>student_id = ''1002'', name = ''Bob'', age = 21, grade = ''11th'', gpa = Finite 4\<rparr>], [], Some 
      [FIELDNAMES, [''1001'', ''Ann'', ''20'', ''10th'', ''3.5''], [''1002'', ''Bob'', ''21'', ''11th'', ''4.0'']])
   \<and> unique_ids [
      \<lparr>student_id = ''1001'', name = ''Ann'', age = 20, grade = ''10th'', gpa = Finite (7 / 2)\<rparr>, 
      \<lparr>student_id = ''1002'', name = ''Bob'', age = 21, grade = ''11th'', gpa = Finite 4\<rparr>]
   \<and> reachable (Some 
      [FIELDNAMES, [''1001'', ''Ann'', ''20'', ''10th'', ''3.5''], [''1002'', ''Bob'', ''21'', ''11th'', ''4.0'']]) [
      \<lparr>student_id = ''1002'', name = ''Bob'', age = 21, grade = ''11th'', gpa = Finite 4\<rparr>, 
      \<lparr>student_id = ''1003'', name = ''Cy'', age = 22, grade = ''12th'', gpa = Finite 2\<rparr>]
   \<and> unique_ids [
      \<lparr>student_id = ''1002'', name = ''Bob'', age = 21, grade = ''11th'', gpa = Finite 4\<rparr>, 
      \<lparr>student_id = ''1003'', name = ''Cy'', age = 22, grade = ''12th'', gpa = Finite 2\<rparr>]"
proof -
  have l: "load_students (Some 
      [FIELDNAMES, [''1001'', ''Ann'', ''20'', ''10th'', ''3.5''], [''1002'', ''Bob'', ''21'', ''11th'', ''4.0'']]) = Inr ([
      \<lparr>student_id = ''1001'', name = ''Ann'', age = 20, grade = ''10th'', gpa = Finite (7 / 2)\<rparr>, 
      \<lparr>student_id = ''1002'', name = ''Bob'', age = 21, grade = ''11th'', gpa = Finite 4\<rparr>], [], Some 
      [FIELDNAMES, [''1001'', ''Ann'', ''20'', ''10th'', ''3.5''], [''1002'', ''Bob'', ''21'', ''11th'', ''4.0'']])"
    by code_simp
  have u: "unique_ids [
      \<lparr>student_id = ''1001'', name = ''Ann'', age = 20, grade = ''10th'', gpa = Finite (7 / 2)\<rparr>, 
      \<lparr>student_id = ''1002'', name = ''Bob'', age = 21, grade = ''11th'', gpa = Finite 4\<rparr>]" by (simp add: unique_ids_def)
  have a: "add_new_student [
      \<lparr>student_id = ''1001'', name = ''Ann'', age = 20, grade = ''10th'', gpa = Finite (7 / 2)\<rparr>, 
      \<lparr>student_id = ''1002'', name = ''Bob'', age = 21, grade = ''11th'', gpa = Finite 4\<rparr>] [''Cy'', ''22'', ''12th'', ''2.0''] =
      Inr ([
      \<lparr>student_id = ''1001'', name = ''Ann'', age = 20, grade = ''10th'', gpa = Finite (7 / 2)\<rparr>, 
      \<lparr>student_id = ''1002'', name = ''Bob'', age = 21, grade = ''11th'', gpa = Finite 4\<rparr>, 
      \<lparr>student_id = ''1003'', name = ''Cy'', age = 22, grade = ''12th'', gpa = Finite 2\<rparr>], [], [Added ''Cy'' ''1003''])"
    by code_simp
  have d: "update_and_delete [
      \<lparr>student_id = ''1001'', name = ''Ann'', age = 20, grade = ''10th'', gpa = Finite (7 / 2)\<rparr>, 
      \<lparr>student_id = ''1002'', name = ''Bob'', age = 21, grade = ''11th'', gpa = Finite 4\<rparr>, 
      \<lparr>student_id = ''1003'', name = ''Cy'', age = 22, grade = ''12th'', gpa = Finite 2\<rparr>] [''1001'', ''d''] =
      Inr ([
      \<lparr>student_id = ''1002'', name = ''Bob'', age = 21, grade = ''11th'', gpa = Finite 4\<rparr>, 
      \<lparr>student_id = ''1003'', name = ''Cy'', age = 22, grade = ''12th'', gpa = Finite 2\<rparr>], [], [StudentFound 
      \<lparr>student_id = ''1001'', name = ''Ann'', age = 20, grade = ''10th'', gpa = Finite (7 / 2)\<rparr>, Deleted ''1001'' ''Ann''])"
    by code_simp
  have r0: "reachable (Some 
      [FIELDNAMES, [''1001'', ''Ann'', ''20'', ''10th'', ''3.5''], [''1002'', ''Bob'', ''21'', ''11th'', ''4.0'']]) [
      \<lparr>student_id = ''1001'', name = ''Ann'', age = 20, grade = ''10th'', gpa = Finite (7 / 2)\<rparr>, 
      \<lparr>student_id = ''1002'', name = ''Bob'', age = 21, grade = ''11th'', gpa = Finite 4\<rparr>]" using l by (rule reachable.loaded)
  have r1: "reachable (Some 
      [FIELDNAMES, [''1001'', ''Ann'', ''20'', ''10th'', ''3.5''], [''1002'', ''Bob'', ''21'', ''11th'', ''4.0'']]) [
      \<lparr>student_id = ''1001'', name = ''Ann'', age = 20, grade = ''10th'', gpa = Finite (7 / 2)\<rparr>, 
      \<lparr>student_id = ''1002'', name = ''Bob'', age = 21, grade = ''11th'', gpa = Finite 4\<rparr>, 
      \<lparr>student_id = ''1003'', name = ''Cy'', age = 22, grade = ''12th'', gpa = Finite 2\<rparr>]" using r0 a by (rule reachable.added)
  have r2: "reachable (Some 
      [FIELDNAMES, [''1001'', ''Ann'', ''20'', ''10th'', ''3.5''], [''1002'', ''Bob'', ''21'', ''11th'', ''4.0'']]) [
      \<lparr>student_id = ''1002'', name = ''Bob'', age = 21, grade = ''11th'', gpa = Finite 4\<rparr>, 
      \<lparr>student_id = ''1003'', name = ''Cy'', age = 22, grade = ''12th'', gpa = Finite 2\<rparr>]" using r1 d by (rule reachable.modified)
  have "unique_ids [
      \<lparr>student_id = ''1002'', name = ''Bob'', age = 21, grade = ''11th'', gpa = Finite 4\<rparr>, 
      \<lparr>student_id = ''1003'', name = ''Cy'', age = 22, grade = ''12th'', gpa = Finite 2\<rparr>]" using unique_ids_invariant [OF l u r2] .
  then show ?thesis using l u r2 by blast
qed

text \<open>
  The claim as first stated fails at startup: \<open>load_students\<close> takes the ids as the file
  gives them, and a file with the id \<open>1001\<close> on two lines loads two records with that id.
\<close>

theorem unique_ids_duplicate_counterexample:
  "reachable (Some 
      [FIELDNAMES, [''1001'', ''Ann'', ''20'', ''10th'', ''3.5''], [''1001'', ''Bob'', ''21'', ''11th'', ''4.0'']]) [
      \<lparr>student_id = ''1001'', name = ''Ann'', age = 20, grade = ''10th'', gpa = Finite (7 / 2)\<rparr>, 
      \<lparr>student_id = ''1001'', name = ''Bob'', age = 21, grade = ''11th'', gpa = Finite 4\<rparr>] \<and> \<not> unique_ids [
      \<lparr>student_id = ''1001'', name = ''Ann'', age = 20, grade = ''10th'', gpa = Finite (7 / 2)\<rparr>, 
      \<lparr>student_id = ''1001'', name = ''Bob'', age = 21, grade = ''11th'', gpa = Finite 4\<rparr>]"
proof -
  have l: "load_students (Some 
      [FIELDNAMES, [''1001'', ''Ann'', ''20'', ''10th'', ''3.5''], [''1001'', ''Bob'', ''21'', ''11th'', ''4.0'']]) = Inr ([
      \<lparr>student_id = ''1001'', name = ''Ann'', age = 20, grade = ''10th'', gpa = Finite (7 / 2)\<rparr>, 
      \<lparr>student_id = ''1001'', name = ''Bob'', age = 21, grade = ''11th'', gpa = Finite 4\<rparr>], [], Some 
      [FIELDNAMES, [''1001'', ''Ann'', ''20'', ''10th'', ''3.5''], [''1001'', ''Bob'', ''21'', ''11th'', ''4.0'']])"
    by code_simp
  have "reachable (Some 
      [FIELDNAMES, [''1001'', ''Ann'', ''20'', ''10th'', ''3.5''], [''1001'', ''Bob'', ''21'', ''11th'', ''4.0'']]) [
      \<lparr>student_id = ''1001'', name = ''Ann'', age = 20, grade = ''10th'', gpa = Finite (7 / 2)\<rparr>, 
      \<lparr>student_id = ''1001'', name = ''Bob'', age = 21, grade = ''11th'', gpa = Finite 4\<rparr>]" using l by (rule reachable.loaded)
  then show ?thesis by (simp add: unique_ids_def)
qed

end
